theory Spec2Isabelle
  imports Complex_Main "HOL-Library.AList" "HOL-Library.Log_Nat"
begin

section \<open>JavaScript values and the built-ins the routes call\<close>

text \<open>
  The attendance routes (\<^verbatim>\<open>routes/staffAttendanceRoutes.js\<close>,
  \<^verbatim>\<open>routes/studentAttendanceRoutes.js\<close>) read rows from the store and inspect
  the \<^verbatim>\<open>staffStatus\<close> column with \<^verbatim>\<open>typeof\<close>, \<^verbatim>\<open>JSON.parse\<close>,
  \<^verbatim>\<open>Array.isArray\<close>, property reads and the array methods. The column can hold any
  JSON value, so it is modelled as a JavaScript value. An object is an association list
  in property order; the first binding of a key is the one a property read returns.
  JavaScript numbers are IEEE doubles; a double is modelled as the rational it denotes and
  each arithmetic operation as the exact operation followed by the rounding to the nearest
  double.
\<close>

datatype jsval =
    JUndefined
  | JNull
  | JBool bool
  | JNum rat
  | JStr string
  | JArr "jsval list"
  | JObj "(string \<times> jsval) list"

text \<open>
  What a handler can throw: a \<^verbatim>\<open>TypeError\<close> of the language (a property read on
  \<^verbatim>\<open>null\<close> or \<^verbatim>\<open>undefined\<close>, a call of something that is not a function), and the
  store client's error \<^verbatim>\<open>PGRST116\<close> of \<^verbatim>\<open>.single()\<close> when the filter does not
  select exactly one row.
\<close>

datatype exn = TypeError | PGRST116

text \<open>
  The built-ins of the JavaScript runtime are parameters of the model: \<^verbatim>\<open>JSON.parse\<close>
  (\<open>None\<close> when it throws \<^verbatim>\<open>SyntaxError\<close>), \<^verbatim>\<open>JSON.stringify\<close>, the parsing of
  a date string by \<^verbatim>\<open>new Date(s)\<close> (milliseconds since the epoch, \<open>None\<close> for an
  invalid date), the clock read by \<^verbatim>\<open>new Date()\<close> and the server's time zone.
  The zone is the function \<^verbatim>\<open>LocalTZA(t, isUTC)\<close> of the language: the offset of local
  time from UTC, in milliseconds, at the instant \<open>t\<close>, which is a UTC time value when
  \<open>isUTC\<close> holds and a local time value otherwise; it changes with \<open>t\<close> where the zone
  has daylight saving time.
\<close>

record runtime =
  json_parse :: "string \<Rightarrow> jsval option"
  json_stringify :: "jsval \<Rightarrow> string"
  date_parse :: "string \<Rightarrow> int option"
  now :: int
  localTZA :: "int \<Rightarrow> bool \<Rightarrow> int"

text \<open>
  \<^verbatim>\<open>v.k\<close>: a property read throws on \<^verbatim>\<open>null\<close> and \<^verbatim>\<open>undefined\<close>, reads the
  property of an object, and is \<^verbatim>\<open>undefined\<close> on every other value for the keys the
  routes read (\<^verbatim>\<open>id\<close> and \<^verbatim>\<open>status\<close>).
\<close>

fun getProp :: "jsval \<Rightarrow> string \<Rightarrow> exn + jsval" where
  "getProp JUndefined k = Inl TypeError"
| "getProp JNull k = Inl TypeError"
| "getProp (JObj kvs) k = Inr (case map_of kvs k of Some v \<Rightarrow> v | None \<Rightarrow> JUndefined)"
| "getProp v k = Inr JUndefined"

text \<open>
  \<^verbatim>\<open>v.k = x\<close> in an ES module (strict mode): sets the property of an object, keeping its
  position when the key exists, and throws on every value that is not an object.
\<close>

fun setProp :: "jsval \<Rightarrow> string \<Rightarrow> jsval \<Rightarrow> exn + jsval" where
  "setProp (JObj kvs) k x = Inr (JObj (AList.update k x kvs))"
| "setProp v k x = Inl TypeError"

fun truthy :: "jsval \<Rightarrow> bool" where
  "truthy JUndefined = False"
| "truthy JNull = False"
| "truthy (JBool b) = b"
| "truthy (JNum n) = (n \<noteq> 0)"
| "truthy (JStr s) = (s \<noteq> [])"
| "truthy (JArr xs) = True"
| "truthy (JObj kvs) = True"

text \<open>The array methods, with a callback that may throw.\<close>

fun forEach :: "('a \<Rightarrow> 's \<Rightarrow> exn + 's) \<Rightarrow> 'a list \<Rightarrow> 's \<Rightarrow> exn + 's" where
  "forEach f [] s = Inr s"
| "forEach f (x # xs) s = (case f x s of Inl e \<Rightarrow> Inl e | Inr s' \<Rightarrow> forEach f xs s')"

fun mapE :: "('a \<Rightarrow> exn + 'b) \<Rightarrow> 'a list \<Rightarrow> exn + 'b list" where
  "mapE f [] = Inr []"
| "mapE f (x # xs) =
     (case f x of Inl e \<Rightarrow> Inl e
      | Inr y \<Rightarrow> (case mapE f xs of Inl e \<Rightarrow> Inl e | Inr ys \<Rightarrow> Inr (y # ys)))"

fun filterE :: "('a \<Rightarrow> exn + bool) \<Rightarrow> 'a list \<Rightarrow> exn + 'a list" where
  "filterE p [] = Inr []"
| "filterE p (x # xs) =
     (case p x of Inl e \<Rightarrow> Inl e
      | Inr b \<Rightarrow> (case filterE p xs of Inl e \<Rightarrow> Inl e
                  | Inr ys \<Rightarrow> Inr (if b then x # ys else ys)))"

text \<open>\<^verbatim>\<open>find\<close> stops at the first match and is \<^verbatim>\<open>undefined\<close> when there is none.\<close>

fun findE :: "(jsval \<Rightarrow> exn + bool) \<Rightarrow> jsval list \<Rightarrow> exn + jsval" where
  "findE p [] = Inr JUndefined"
| "findE p (x # xs) =
     (case p x of Inl e \<Rightarrow> Inl e | Inr b \<Rightarrow> if b then Inr x else findE p xs)"

text \<open>\<^verbatim>\<open>findIndex\<close>: \<open>None\<close> stands for the result \<^verbatim>\<open>-1\<close>.\<close>

fun findIndexE :: "('a \<Rightarrow> exn + bool) \<Rightarrow> 'a list \<Rightarrow> exn + nat option" where
  "findIndexE p [] = Inr None"
| "findIndexE p (x # xs) =
     (case p x of Inl e \<Rightarrow> Inl e
      | Inr b \<Rightarrow> if b then Inr (Some 0)
                 else (case findIndexE p xs of Inl e \<Rightarrow> Inl e
                       | Inr None \<Rightarrow> Inr None
                       | Inr (Some i) \<Rightarrow> Inr (Some (Suc i))))"

text \<open>The callback \<^verbatim>\<open>(s) => s.id === staffId\<close>; \<^verbatim>\<open>staffId\<close> is a string of the URL.\<close>

definition idIs :: "string \<Rightarrow> jsval \<Rightarrow> exn + bool" where
  "idIs sid s = (case getProp s ''id'' of Inl e \<Rightarrow> Inl e | Inr v \<Rightarrow> Inr (v = JStr sid))"

text \<open>The object literal \<^verbatim>\<open>{ id: staffId, status }\<close>.\<close>

definition entry :: "string \<Rightarrow> string \<Rightarrow> jsval" where
  "entry sid st = JObj [(''id'', JStr sid), (''status'', JStr st)]"

section \<open>The store\<close>

text \<open>
  The tables the attendance routes touch, as lists of rows in the order the store returns
  them. The store client is not part of the repository; the model keeps what the routes
  rely on: a select returns the rows that satisfy the filter, \<^verbatim>\<open>.single()\<close> gives the
  row when exactly one is selected and the error \<^verbatim>\<open>PGRST116\<close> otherwise, an insert
  appends a row under a fresh \<^verbatim>\<open>id\<close>, an update rewrites the rows the filter selects,
  and a column comes back as the value that was written to it. Transport failures of the
  store are outside the model.
\<close>

record staff =
  staffId :: string
  staffName :: string

record student =
  admissionNumber :: string
  studentName :: string

record staffAttendance =
  sa_id :: nat
  sa_date :: string
  sa_staffStatus :: jsval

record studentAttendance =
  st_id :: nat
  st_admissionNumber :: string
  st_date :: string
  st_status :: string

record db =
  Staffs :: "staff list"
  Students :: "student list"
  StaffAttendances :: "staffAttendance list"
  StudentAttendances :: "studentAttendance list"

definition single :: "'a list \<Rightarrow> exn + 'a" where
  "single rows = (case rows of [r] \<Rightarrow> Inr r | _ \<Rightarrow> Inl PGRST116)"

definition nextId :: "nat list \<Rightarrow> nat" where
  "nextId ids = Suc (fold max ids 0)"

text \<open>
  A response: a JSON body, \<^verbatim>\<open>{message}\<close>, \<^verbatim>\<open>{message, data}\<close>, or the
  \<^verbatim>\<open>{message, error}\<close> of a \<^verbatim>\<open>catch\<close> block, each with its HTTP status.
\<close>

datatype 'a response =
    Json nat 'a
  | Message nat string
  | MessageData nat string 'a
  | Failed nat string exn

fun status_of :: "'a response \<Rightarrow> nat" where
  "status_of (Json c b) = c"
| "status_of (Message c m) = c"
| "status_of (MessageData c m d) = c"
| "status_of (Failed c m e) = c"

section \<open>Numbers\<close>

text \<open>
  The rounding of a rational to the nearest double (IEEE 754 binary64, ties to even). For
  \<open>x\<close> other than 0, with \<open>e\<close> the exponent of \<open>\<bar>x\<bar>\<close>, that is
  \<open>2\<^sup>e \<le> \<bar>x\<bar> < 2\<^sup>e\<^sup>+\<^sup>1\<close>, the significand \<open>\<bar>x\<bar> / 2\<^sup>e\<^sup>-\<^sup>5\<^sup>2\<close> lies between
  \<open>2\<^sup>5\<^sup>2\<close> and \<open>2\<^sup>5\<^sup>3\<close> and is rounded to an integer. The range of the exponent
  is not modelled: the rates lie between \<open>2\<^sup>-\<^sup>3\<^sup>2\<close> and 100, far from overflow and
  from the subnormal numbers.
\<close>

definition roundEven :: "rat \<Rightarrow> int" where
  "roundEven q =
     (let f = \<lfloor>q\<rfloor>; r = q - of_int f
      in if r < 1 / 2 then f else if 1 / 2 < r then f + 1 else if even f then f else f + 1)"

text \<open>
  The exponent of a positive rational: for \<open>x \<ge> 1\<close> one less than the number of bits of
  \<open>\<lfloor>x\<rfloor>\<close>; for \<open>x < 1\<close> the negative of the least \<open>j\<close> with \<open>1 / x \<le> 2\<^sup>j\<close>.
\<close>

definition exponentOf :: "rat \<Rightarrow> int" where
  "exponentOf x =
     (if 1 \<le> x then int (floorlog 2 (nat \<lfloor>x\<rfloor>)) - 1
      else - int (floorlog 2 (nat \<lceil>1 / x\<rceil> - 1)))"

definition binary64 :: "rat \<Rightarrow> rat" where
  "binary64 x =
     (if x = 0 then 0
      else sgn x * of_int (roundEven (\<bar>x\<bar> * 2 powi (52 - exponentOf \<bar>x\<bar>)))
             * 2 powi (exponentOf \<bar>x\<bar> - 52))"

text \<open>
  The number that \<^verbatim>\<open>x.toFixed(digits)\<close> prints: of the multiples of
  \<open>10\<^sup>-\<^sup>d\<^sup>i\<^sup>g\<^sup>i\<^sup>t\<^sup>s\<close> the one nearest to the double \<open>x\<close>, the larger one on a tie;
  the sign of a negative \<open>x\<close> is put in front of the digits of its absolute value.
\<close>

definition toFixedNumber :: "rat \<Rightarrow> nat \<Rightarrow> rat" where
  "toFixedNumber x digits = sgn x * of_int \<lfloor>\<bar>x\<bar> * 10 ^ digits + 1 / 2\<rfloor> / 10 ^ digits"

section \<open>Dates\<close>

definition msPerDay :: int where
  "msPerDay = 86400000"

text \<open>\<^verbatim>\<open>LocalTime(t) = t + LocalTZA(t, true)\<close> and \<^verbatim>\<open>UTC(t) = t - LocalTZA(t, false)\<close>.\<close>

definition localTime :: "runtime \<Rightarrow> int \<Rightarrow> int" where
  "localTime rt t = t + localTZA rt t True"

definition utcTime :: "runtime \<Rightarrow> int \<Rightarrow> int" where
  "utcTime rt t = t - localTZA rt t False"

text \<open>
  \<^verbatim>\<open>const oneWeekAgo = new Date(); oneWeekAgo.setDate(oneWeekAgo.getDate() - 7)\<close>.
  \<^verbatim>\<open>setDate\<close> takes the local time of the clock, replaces its day of the month by the
  day seven earlier and keeps the time within the day, which is the local time less seven
  times 24 hours, and converts that local time back to UTC. Where the zone's offset is not
  the same at the two ends, the result is not seven times 24 hours before now.
\<close>

definition oneWeekAgo :: "runtime \<Rightarrow> int" where
  "oneWeekAgo rt = utcTime rt (localTime rt (now rt) - 7 * msPerDay)"

text \<open>\<^verbatim>\<open>getDay()\<close>: the local weekday, 0 for Sunday; 1 January 1970 was a Thursday.\<close>

definition getDay :: "runtime \<Rightarrow> int \<Rightarrow> int" where
  "getDay rt t = (localTime rt t div msPerDay + 4) mod 7"

text \<open>
  \<^verbatim>\<open>new Date(s) >= oneWeekAgo\<close>; a comparison with an invalid date is false.
\<close>

definition sinceOneWeekAgo :: "runtime \<Rightarrow> string \<Rightarrow> bool" where
  "sinceOneWeekAgo rt s = (case date_parse rt s of None \<Rightarrow> False | Some t \<Rightarrow> t \<ge> oneWeekAgo rt)"

text \<open>\<^verbatim>\<open>dayOfWeek >= 1 && dayOfWeek <= 5\<close>; the weekday of an invalid date is NaN.\<close>

definition onWeekday :: "runtime \<Rightarrow> string \<Rightarrow> bool" where
  "onWeekday rt s =
     (case date_parse rt s of None \<Rightarrow> False | Some t \<Rightarrow> 1 \<le> getDay rt t \<and> getDay rt t \<le> 5)"

section \<open>Staff attendance: the weekly rate\<close>

text \<open>
  The parsing of the column that each reader of \<^verbatim>\<open>staffStatus\<close> repeats:
  \<^verbatim>\<open>
  let staffStatus = record.staffStatus;
  if (typeof staffStatus === "string") {
    try { staffStatus = JSON.parse(staffStatus); } catch (e) { staffStatus = []; }
  }\<close>
\<close>

definition parseStaffStatus :: "runtime \<Rightarrow> jsval \<Rightarrow> jsval" where
  "parseStaffStatus rt v =
     (case v of
        JStr s \<Rightarrow> (case json_parse rt s of Some p \<Rightarrow> p | None \<Rightarrow> JArr [])
      | _ \<Rightarrow> v)"

text \<open>
  The callback of \<^verbatim>\<open>attendanceRecords.forEach\<close> in
  \<^verbatim>\<open>calculateWeeklyAttendanceRate\<close>, on the counters \<open>(totalDays, presentDays)\<close>.
\<close>

definition weeklyVisit ::
  "runtime \<Rightarrow> string \<Rightarrow> staffAttendance \<Rightarrow> nat \<times> nat \<Rightarrow> exn + nat \<times> nat" where
  "weeklyVisit rt sid record acc =
     (let staffStatus = parseStaffStatus rt (sa_staffStatus record) in
      if sinceOneWeekAgo rt (sa_date record) \<and> onWeekday rt (sa_date record) then
        (case (case staffStatus of JArr xs \<Rightarrow> findE (idIs sid) xs | _ \<Rightarrow> Inr JNull) of
           Inl e \<Rightarrow> Inl e
         | Inr staffEntry \<Rightarrow>
             if truthy staffEntry then
               (case getProp staffEntry ''status'' of
                  Inl e \<Rightarrow> Inl e
                | Inr st \<Rightarrow>
                    Inr (fst acc + 1, if st = JStr ''present'' then snd acc + 1 else snd acc))
             else Inr acc)
      else Inr acc)"

text \<open>
  \<^verbatim>\<open>totalDays > 0 ? (presentDays / totalDays) * 100 : 0\<close>. The two counts are lengths
  of arrays, below \<open>2\<^sup>3\<^sup>2\<close> and so exact as doubles; the quotient is rounded, and so
  is its product with 100.
\<close>

definition percentage :: "nat \<Rightarrow> nat \<Rightarrow> rat" where
  "percentage presentDays totalDays =
     (if totalDays > 0
      then binary64 (binary64 (of_nat presentDays / of_nat totalDays) * 100) else 0)"

definition calculateWeeklyAttendanceRate ::
  "runtime \<Rightarrow> staffAttendance list \<Rightarrow> string \<Rightarrow> exn + rat" where
  "calculateWeeklyAttendanceRate rt attendanceRecords sid =
     (case forEach (weeklyVisit rt sid) attendanceRecords (0, 0) of
        Inl e \<Rightarrow> Inl e
      | Inr (totalDays, presentDays) \<Rightarrow> Inr (percentage presentDays totalDays))"

section \<open>Staff attendance: the summary of one staff member\<close>

text \<open>
  The callback of \<^verbatim>\<open>attendanceData.map\<close> in \<^verbatim>\<open>router.get("/:staffId")\<close>:
  \<^verbatim>\<open>
  const filtered = staffStatus.filter((s) => s.id === staffId);
  return { date: record.date, staffStatus: filtered };\<close>
  \<^verbatim>\<open>staffStatus.filter\<close> is called on whatever the column holds after the parsing; on
  a value that is not an array the call throws.
\<close>

definition filterRecord ::
  "runtime \<Rightarrow> string \<Rightarrow> staffAttendance \<Rightarrow> exn + string \<times> jsval list" where
  "filterRecord rt sid record =
     (case parseStaffStatus rt (sa_staffStatus record) of
        JArr xs \<Rightarrow>
          (case filterE (idIs sid) xs of
             Inl e \<Rightarrow> Inl e
           | Inr filtered \<Rightarrow> Inr (sa_date record, filtered))
      | _ \<Rightarrow> Inl TypeError)"

text \<open>\<^verbatim>\<open>r.staffStatus[0]?.status === "present"\<close>.\<close>

definition firstIsPresent :: "string \<times> jsval list \<Rightarrow> bool" where
  "firstIsPresent r =
     (case snd r of
        [] \<Rightarrow> False
      | e # _ \<Rightarrow> (case getProp e ''status'' of Inl _ \<Rightarrow> False | Inr v \<Rightarrow> v = JStr ''present''))"

text \<open>
  The values the handler computes between the fetch and the response (lines 76 to 99).
  \<open>daysAbsent\<close> is a difference of two counts of which the second is at most the
  first, so the subtraction of naturals is the subtraction of the source.
\<close>

record staffFigures =
  sf_filteredAttendance :: "(string \<times> jsval list) list"
  sf_totalDays :: nat
  sf_daysPresent :: nat
  sf_daysAbsent :: nat
  sf_weeklyAttendanceRate :: rat
  sf_overallAttendanceRate :: rat

definition staffFiguresOf ::
  "runtime \<Rightarrow> staffAttendance list \<Rightarrow> string \<Rightarrow> exn + staffFigures" where
  "staffFiguresOf rt attendanceData sid =
     (case mapE (filterRecord rt sid) attendanceData of
        Inl e \<Rightarrow> Inl e
      | Inr filteredAttendance \<Rightarrow>
          (let totalDays = length filteredAttendance;
               daysPresent = length (filter firstIsPresent filteredAttendance);
               daysAbsent = totalDays - daysPresent
           in case calculateWeeklyAttendanceRate rt attendanceData sid of
                Inl e \<Rightarrow> Inl e
              | Inr weeklyAttendanceRate \<Rightarrow>
                  Inr \<lparr> sf_filteredAttendance = filteredAttendance,
                        sf_totalDays = totalDays,
                        sf_daysPresent = daysPresent,
                        sf_daysAbsent = daysAbsent,
                        sf_weeklyAttendanceRate = weeklyAttendanceRate,
                        sf_overallAttendanceRate = percentage daysPresent totalDays \<rparr>))"

text \<open>
  The string \<^verbatim>\<open>`${x.toFixed(n)}%`\<close> is kept as the number and the count of
  decimals it is printed from.
\<close>

datatype percent = Percent rat nat


text \<open>The body of the 200 response.\<close>

record staffSummary =
  sm_staffDetails :: "staff option"
  sm_totalDays :: nat
  sm_daysPresent :: nat
  sm_daysAbsent :: nat
  sm_weeklyAttendanceRate :: percent
  sm_overallAttendanceRate :: percent
  sm_attendance :: "(string \<times> jsval list) list"

definition staffSummaryOf :: "staff option \<Rightarrow> nat \<Rightarrow> staffFigures \<Rightarrow> staffSummary" where
  "staffSummaryOf details digits f =
     \<lparr> sm_staffDetails = details,
       sm_totalDays = sf_totalDays f,
       sm_daysPresent = sf_daysPresent f,
       sm_daysAbsent = sf_daysAbsent f,
       sm_weeklyAttendanceRate = Percent (sf_weeklyAttendanceRate f) digits,
       sm_overallAttendanceRate = Percent (sf_overallAttendanceRate f) digits,
       sm_attendance = sf_filteredAttendance f \<rparr>"

text \<open>
  \<^verbatim>\<open>router.get("/:staffId")\<close>: the whole table is fetched, an empty table is answered
  with 404, and everything thrown is answered with 500 by the \<^verbatim>\<open>catch\<close> block.
\<close>

definition getStaffAttendanceSummary ::
  "runtime \<Rightarrow> db \<Rightarrow> string \<Rightarrow> string option \<Rightarrow> staffSummary response" where
  "getStaffAttendanceSummary rt d sid expand =
     (let attendanceData = StaffAttendances d in
      if attendanceData = [] then
        Message 404 ''No attendance data found for this staff ID.''
      else
        (case staffFiguresOf rt attendanceData sid of
           Inl e \<Rightarrow> Failed 500 ''Error fetching attendance data'' e
         | Inr f \<Rightarrow>
             if expand = Some ''staff'' then
               (case single (filter (\<lambda>s. staffId s = sid) (Staffs d)) of
                  Inl e \<Rightarrow> Failed 500 ''Error fetching attendance data'' e
                | Inr staffDetails \<Rightarrow> Json 200 (staffSummaryOf (Some staffDetails) 0 f))
             else Json 200 (staffSummaryOf None 2 f)))"

section \<open>Staff attendance: the upsert\<close>

text \<open>\<^verbatim>\<open>!x\<close> on a field of the request body: missing, or the empty string.\<close>

definition missing :: "string option \<Rightarrow> bool" where
  "missing x = (case x of None \<Rightarrow> True | Some s \<Rightarrow> s = [])"

text \<open>\<^verbatim>\<open>.update({ staffStatus: v }).eq("id", i)\<close>.\<close>

definition updateStaffStatus :: "nat \<Rightarrow> jsval \<Rightarrow> staffAttendance list \<Rightarrow> staffAttendance list" where
  "updateStaffStatus i v rows =
     map (\<lambda>r. if sa_id r = i then r\<lparr>sa_staffStatus := v\<rparr> else r) rows"

text \<open>
  \<^verbatim>\<open>router.post("/:staffId")\<close>. The day's row is looked up with
  \<^verbatim>\<open>.eq("date", date).single()\<close>, whose \<^verbatim>\<open>PGRST116\<close> is ignored and leaves
  \<^verbatim>\<open>existingRecord\<close> null. Both writes store \<^verbatim>\<open>JSON.stringify\<close> of the array, a
  string. On an existing row the handler calls \<^verbatim>\<open>findIndex\<close> on
  \<^verbatim>\<open>existingRecord.staffStatus || []\<close> as it is, without the parsing of the readers.
\<close>

definition markStaffAttendance ::
  "runtime \<Rightarrow> db \<Rightarrow> string \<Rightarrow> string option \<Rightarrow> string option \<Rightarrow> unit response \<times> db" where
  "markStaffAttendance rt d sid date status =
     (if missing date \<or> missing status then
        (Message 400 ''Date and status are required.'', d)
      else
        (let dt = the date; st = the status; rows = StaffAttendances d in
         case single (filter (\<lambda>r. sa_date r = dt) rows) of
           Inl _ \<Rightarrow>
             (Message 201 ''New attendance record created successfully.'',
              d\<lparr>StaffAttendances := rows @
                   [\<lparr> sa_id = nextId (map sa_id rows), sa_date = dt,
                      sa_staffStatus = JStr (json_stringify rt (JArr [entry sid st])) \<rparr>]\<rparr>)
         | Inr existingRecord \<Rightarrow>
             (let updatedStatuses =
                    (if truthy (sa_staffStatus existingRecord)
                     then sa_staffStatus existingRecord else JArr [])
              in case updatedStatuses of
                   JArr xs \<Rightarrow>
                     (case findIndexE (idIs sid) xs of
                        Inl e \<Rightarrow> (Failed 500 ''Error updating attendance status'' e, d)
                      | Inr index \<Rightarrow>
                          (case (case index of
                                   Some i \<Rightarrow>
                                     (case setProp (xs ! i) ''status'' (JStr st) of
                                        Inl e \<Rightarrow> Inl e
                                      | Inr x \<Rightarrow> Inr (xs[i := x]))
                                 | None \<Rightarrow> Inr (xs @ [entry sid st])) of
                             Inl e \<Rightarrow> (Failed 500 ''Error updating attendance status'' e, d)
                           | Inr ys \<Rightarrow>
                               (Message 200 ''Attendance status updated successfully.'',
                                d\<lparr>StaffAttendances :=
                                    updateStaffStatus (sa_id existingRecord)
                                      (JStr (json_stringify rt (JArr ys))) rows\<rparr>)))
                 | _ \<Rightarrow> (Failed 500 ''Error updating attendance status'' TypeError, d))))"

section \<open>Student attendance\<close>

text \<open>
  \<^verbatim>\<open>calculateRates\<close>: the counts and, before their formatting by
  \<^verbatim>\<open>toFixed(0)\<close>, the two rates.
\<close>

record studentFigures =
  st_totalDays :: nat
  st_presentDays :: nat
  st_absentDays :: nat
  st_weeklyRate :: rat
  st_overallRate :: rat

definition studentFiguresOf :: "runtime \<Rightarrow> studentAttendance list \<Rightarrow> studentFigures" where
  "studentFiguresOf rt records =
     (let totalDays = length records;
          presentDays = length (filter (\<lambda>r. st_status r = ''present'') records);
          absentDays = length (filter (\<lambda>r. st_status r = ''absent'') records);
          weeklyRecords = filter (\<lambda>r. sinceOneWeekAgo rt (st_date r)) records;
          weeklyPresent = length (filter (\<lambda>r. st_status r = ''present'') weeklyRecords)
      in \<lparr> st_totalDays = totalDays,
           st_presentDays = presentDays,
           st_absentDays = absentDays,
           st_weeklyRate = percentage weeklyPresent (length weeklyRecords),
           st_overallRate = percentage presentDays totalDays \<rparr>)"



text \<open>
  \<^verbatim>\<open>router.post("/")\<close>: the fields are required, the student must be the single row of
  its admission number, and a single existing row of the pair rejects the write.
\<close>

definition markStudentAttendance ::
  "db \<Rightarrow> string option \<Rightarrow> string option \<Rightarrow> string option
     \<Rightarrow> studentAttendance list response \<times> db" where
  "markStudentAttendance d adm date status =
     (if missing adm \<or> missing date \<or> missing status then
        (Message 400 ''All fields are required'', d)
      else
        (let a = the adm; dt = the date; st = the status; rows = StudentAttendances d in
         case single (filter (\<lambda>s. admissionNumber s = a) (Students d)) of
           Inl _ \<Rightarrow> (Message 404 ''Student not found'', d)
         | Inr student \<Rightarrow>
             (case single (filter (\<lambda>r. st_admissionNumber r = a \<and> st_date r = dt) rows) of
                Inr existing \<Rightarrow>
                  (Message 400 ''Attendance already marked for this student on this date'', d)
              | Inl _ \<Rightarrow>
                  (let row = \<lparr> st_id = nextId (map st_id rows), st_admissionNumber = a,
                               st_date = dt, st_status = st \<rparr>
                   in (MessageData 201 ''Attendance recorded successfully'' [row],
                       d\<lparr>StudentAttendances := rows @ [row]\<rparr>)))))"

section \<open>Reading a day's collection\<close>

text \<open>
  A day that holds no entry of the staff member: the column, parsed as the readers parse it,
  is an array, and \<^verbatim>\<open>s.id === staffId\<close> is false on each of its elements (so no element
  is \<^verbatim>\<open>null\<close>). A column whose text does not parse is such a day, being read as the
  empty array.
\<close>

definition dayWithout :: "runtime \<Rightarrow> string \<Rightarrow> staffAttendance \<Rightarrow> bool" where
  "dayWithout rt sid r =
     (case parseStaffStatus rt (sa_staffStatus r) of
        JArr xs \<Rightarrow> list_all (\<lambda>e. idIs sid e = Inr False) xs
      | _ \<Rightarrow> False)"

text \<open>An element of a collection that is an object, as an entry is.\<close>

fun isObj :: "jsval \<Rightarrow> bool" where
  "isObj (JObj kvs) = True"
| "isObj v = False"

section \<open>A runtime and stores for the examples\<close>

text \<open>The JSON texts of the examples, as \<^verbatim>\<open>JSON.stringify\<close> prints the arrays.\<close>

definition textS1 :: string where
  \<open>textS1 = ''[{"id":"S1","status":"present"}]''\<close>

definition textS2 :: string where
  \<open>textS2 = ''[{"id":"S2","status":"present"}]''\<close>

definition textS1S2 :: string where
  \<open>textS1S2 = ''[{"id":"S1","status":"present"},{"id":"S2","status":"absent"}]''\<close>

text \<open>
  The built-ins on the texts and dates of the examples. The clock stands at
  2024-03-10T00:00:00Z in a server on UTC, so that \<open>oneWeekAgo\<close> is 2024-03-03T00:00:00Z;
  2024-03-01 is a Friday before the window, 2024-03-04 a Monday and 2024-03-05 a Tuesday
  inside it, 2024-03-09 a Saturday inside it, and 2024-03-11 a Monday after the clock.
  \<open>json_parse\<close> reads the three texts above, \<^verbatim>\<open>[]\<close> and \<^verbatim>\<open>null\<close>, and leaves every
  other text unparseable; \<open>json_stringify\<close> prints the three arrays and \<^verbatim>\<open>null\<close>, and
  is not applied to another value in the examples.
\<close>

definition sampleRuntime :: runtime where
  "sampleRuntime =
     \<lparr> json_parse = (\<lambda>s.
          if s = textS1 then Some (JArr [entry ''S1'' ''present''])
          else if s = textS2 then Some (JArr [entry ''S2'' ''present''])
          else if s = textS1S2 then Some (JArr [entry ''S1'' ''present'', entry ''S2'' ''absent''])
          else if s = ''[]'' then Some (JArr [])
          else if s = ''null'' then Some JNull
          else None),
       json_stringify = (\<lambda>v.
          if v = JArr [entry ''S1'' ''present''] then textS1
          else if v = JArr [entry ''S2'' ''present''] then textS2
          else if v = JArr [entry ''S1'' ''present'', entry ''S2'' ''absent''] then textS1S2
          else if v = JNull then ''null''
          else ''[]''),
       date_parse = (\<lambda>s.
          if s = ''2024-03-01'' then Some 1709251200000
          else if s = ''2024-03-04'' then Some 1709510400000
          else if s = ''2024-03-05'' then Some 1709596800000
          else if s = ''2024-03-09'' then Some 1709942400000
          else if s = ''2024-03-11'' then Some 1710115200000
          else None),
       now = 1710028800000,
       localTZA = (\<lambda>t isUTC. 0) \<rparr>"

definition staffDay :: "nat \<Rightarrow> string \<Rightarrow> jsval \<Rightarrow> staffAttendance" where
  "staffDay i dt v = \<lparr> sa_id = i, sa_date = dt, sa_staffStatus = v \<rparr>"

definition studentDay :: "nat \<Rightarrow> string \<Rightarrow> string \<Rightarrow> string \<Rightarrow> studentAttendance" where
  "studentDay i a dt st = \<lparr> st_id = i, st_admissionNumber = a, st_date = dt, st_status = st \<rparr>"

definition staffStore :: "staffAttendance list \<Rightarrow> db" where
  "staffStore rows = \<lparr> Staffs = [], Students = [], StaffAttendances = rows, StudentAttendances = [] \<rparr>"

definition studentStore :: "student list \<Rightarrow> studentAttendance list \<Rightarrow> db" where
  "studentStore ss rows =
     \<lparr> Staffs = [], Students = ss, StaffAttendances = [], StudentAttendances = rows \<rparr>"

section \<open>Facts about the rounding and the percentage\<close>











text \<open>
  Values of the percentage. Halves and wholes are exact; 23 days of 40 give
  57.49999999999999 (printed by \<^verbatim>\<open>toFixed(0)\<close> as 57) and not 57.5, and 1 day of 3
  gives 33.33333333333333.
\<close>

lemma percentage_0: "percentage 0 t = 0"
  by (simp add: percentage_def binary64_def)

lemma percentage_1_1: "percentage (Suc 0) (Suc 0) = 100"
  by code_simp

lemma percentage_1_2: "percentage (Suc 0) (Suc (Suc 0)) = 50"
  by code_simp

lemma percentage_23_40: "percentage 23 40 = 8092405580431359 / 140737488355328"
  by code_simp

lemma percentage_1_3: "percentage 1 3 = 2345624805922133 / 70368744177664"
  by code_simp

lemma toFixedNumber_23_40:
  "toFixedNumber (percentage 23 40) 0 = 57" "toFixedNumber (percentage 23 40) 2 = 115 / 2"
  by code_simp+


lemmas sample_defs =
  sampleRuntime_def textS1_def textS2_def textS1S2_def
  staffDay_def studentDay_def staffStore_def studentStore_def entry_def

lemmas staff_read_defs =
  staffFiguresOf_def filterRecord_def parseStaffStatus_def idIs_def firstIsPresent_def
  calculateWeeklyAttendanceRate_def weeklyVisit_def sinceOneWeekAgo_def onWeekday_def
  getDay_def oneWeekAgo_def localTime_def utcTime_def msPerDay_def Let_def
  percentage_0 percentage_1_1 percentage_1_2

lemmas staff_write_defs =
  markStaffAttendance_def missing_def single_def nextId_def updateStaffStatus_def Let_def

section \<open>Facts about the array methods\<close>

lemma mapE_length: "mapE f xs = Inr ys \<Longrightarrow> length ys = length xs"
  by (induction xs arbitrary: ys) (auto split: sum.splits)



lemma forEach_all_skip:
  assumes "\<And>r s. r \<in> set rs \<Longrightarrow> f r s = Inr s"
  shows "forEach f rs s = Inr s"
  using assms by (induction rs arbitrary: s) auto

lemma filterE_none: "list_all (\<lambda>e. p e = Inr False) xs \<Longrightarrow> filterE p xs = Inr []"
  by (induction xs) auto

lemma findE_none: "list_all (\<lambda>e. p e = Inr False) xs \<Longrightarrow> findE p xs = Inr JUndefined"
  by (induction xs) auto

lemma count_two_le:
  assumes "\<And>x. \<not> (P x \<and> Q x)"
  shows "length (filter P xs) + length (filter Q xs) \<le> length xs"
  using assms by (induction xs) auto

lemma count_two_eq:
  assumes "\<And>x. \<not> (P x \<and> Q x)"
  shows "length (filter P xs) + length (filter Q xs) = length xs
           \<longleftrightarrow> list_all (\<lambda>x. P x \<or> Q x) xs"
proof (induction xs)
  case Nil
  show ?case by simp
next
  case (Cons x xs)
  have le: "length (filter P xs) + length (filter Q xs) \<le> length xs"
    by (rule count_two_le [OF assms])
  show ?case
    using Cons le assms [of x] by auto
qed

lemma single_of_unique: "length xs \<le> 1 \<Longrightarrow> xs \<noteq> [] \<Longrightarrow> \<exists>r. single xs = Inr r"
  by (cases xs) (auto simp: single_def split: list.splits)

section \<open>The overall rate\<close>




section \<open>Present and absent days\<close>

text \<open>
  C3, as the code has it: the variants are the other way round. In the student variant
  \<open>presentDays\<close> and \<open>absentDays\<close> are two independent counts, of the statuses equal to
  \<^verbatim>\<open>present\<close> and to \<^verbatim>\<open>absent\<close>, so their sum is at most \<open>totalDays\<close> and equals it
  exactly when no other status occurs. In the staff variant \<open>daysPresent\<close> counts the
  days whose first kept entry is \<^verbatim>\<open>present\<close> and \<open>daysAbsent\<close> is
  \<open>totalDays - daysPresent\<close>, so the two always add up to \<open>totalDays\<close>.
\<close>

theorem C3_present_absent:
  "st_presentDays (studentFiguresOf rt records)
     = length (filter (\<lambda>r. st_status r = ''present'') records)
   \<and> st_absentDays (studentFiguresOf rt records)
     = length (filter (\<lambda>r. st_status r = ''absent'') records)
   \<and> st_presentDays (studentFiguresOf rt records) + st_absentDays (studentFiguresOf rt records)
     \<le> st_totalDays (studentFiguresOf rt records)
   \<and> (st_presentDays (studentFiguresOf rt records) + st_absentDays (studentFiguresOf rt records)
        = st_totalDays (studentFiguresOf rt records)
      \<longleftrightarrow> list_all (\<lambda>r. st_status r = ''present'' \<or> st_status r = ''absent'') records)
   \<and> (staffFiguresOf rt attendanceData sid = Inr f \<longrightarrow>
        sf_daysPresent f = length (filter firstIsPresent (sf_filteredAttendance f))
        \<and> sf_totalDays f = length (sf_filteredAttendance f)
        \<and> sf_daysAbsent f = sf_totalDays f - sf_daysPresent f
        \<and> sf_daysPresent f + sf_daysAbsent f = sf_totalDays f)"
proof -
  have disj: "\<not> (st_status x = ''present'' \<and> st_status x = ''absent'')"
    for x :: studentAttendance
    by auto
  have staff: "sf_daysPresent f = length (filter firstIsPresent (sf_filteredAttendance f))
        \<and> sf_totalDays f = length (sf_filteredAttendance f)
        \<and> sf_daysAbsent f = sf_totalDays f - sf_daysPresent f
        \<and> sf_daysPresent f + sf_daysAbsent f = sf_totalDays f"
    if "staffFiguresOf rt attendanceData sid = Inr f"
    using that by (auto simp: staffFiguresOf_def Let_def split: sum.splits)
  show ?thesis
    using staff
      count_two_le [of "\<lambda>r. st_status r = ''present''" "\<lambda>r. st_status r = ''absent''" records,
        OF disj]
      count_two_eq [of "\<lambda>r. st_status r = ''present''" "\<lambda>r. st_status r = ''absent''" records,
        OF disj]
    by (simp add: studentFiguresOf_def Let_def)
qed

text \<open>
  C3 at two days, the second with the status \<^verbatim>\<open>late\<close>: the staff computation returns
  with one day present and one absent; the student counts are one present and none absent.
\<close>

theorem C3_present_absent_witness:
  "staffFiguresOf sampleRuntime
     [staffDay 1 ''2024-03-04'' (JArr [entry ''S1'' ''present'']),
      staffDay 2 ''2024-03-05'' (JArr [entry ''S1'' ''late''])] ''S1''
   = Inr \<lparr> sf_filteredAttendance =
              [(''2024-03-04'', [entry ''S1'' ''present'']),
               (''2024-03-05'', [entry ''S1'' ''late''])],
            sf_totalDays = 2, sf_daysPresent = 1, sf_daysAbsent = 1,
            sf_weeklyAttendanceRate = 50, sf_overallAttendanceRate = 50 \<rparr>
   \<and> st_presentDays (studentFiguresOf sampleRuntime
         [studentDay 1 ''A1'' ''2024-03-04'' ''present'',
          studentDay 2 ''A1'' ''2024-03-05'' ''late'']) = 1
   \<and> st_absentDays (studentFiguresOf sampleRuntime
         [studentDay 1 ''A1'' ''2024-03-04'' ''present'',
          studentDay 2 ''A1'' ''2024-03-05'' ''late'']) = 0"
  using C3_present_absent [of sampleRuntime
     "[studentDay 1 ''A1'' ''2024-03-04'' ''present'',
       studentDay 2 ''A1'' ''2024-03-05'' ''late'']"
     "[staffDay 1 ''2024-03-04'' (JArr [entry ''S1'' ''present'']),
       staffDay 2 ''2024-03-05'' (JArr [entry ''S1'' ''late''])]" "''S1''"]
  by (simp add: sample_defs staff_read_defs studentFiguresOf_def)

text \<open>
  C3 as the specification words it fails on one day of status \<^verbatim>\<open>late\<close>: the student's
  \<open>absentDays\<close> is 0 and not \<open>totalDays - presentDays = 1\<close>, and the staff member's
  \<open>daysAbsent\<close> is 1 although no status is \<^verbatim>\<open>absent\<close>.
\<close>

theorem C3_counterexample:
  "st_absentDays (studentFiguresOf sampleRuntime [studentDay 1 ''A1'' ''2024-03-04'' ''late''])
     \<noteq> st_totalDays (studentFiguresOf sampleRuntime [studentDay 1 ''A1'' ''2024-03-04'' ''late''])
       - st_presentDays
           (studentFiguresOf sampleRuntime [studentDay 1 ''A1'' ''2024-03-04'' ''late''])
   \<and> staffFiguresOf sampleRuntime [staffDay 1 ''2024-03-04'' (JArr [entry ''S1'' ''late''])] ''S1''
     = Inr \<lparr> sf_filteredAttendance = [(''2024-03-04'', [entry ''S1'' ''late''])],
              sf_totalDays = 1, sf_daysPresent = 0, sf_daysAbsent = 1,
              sf_weeklyAttendanceRate = 0, sf_overallAttendanceRate = 0 \<rparr>"
  by (simp add: sample_defs staff_read_defs studentFiguresOf_def)

section \<open>The weekly rate\<close>











section \<open>The summary of one staff member\<close>

lemma filterRecord_without:
  "dayWithout rt sid r \<Longrightarrow> filterRecord rt sid r = Inr (sa_date r, [])"
  by (auto simp: dayWithout_def filterRecord_def filterE_none split: jsval.splits)

lemma mapE_without:
  "list_all (dayWithout rt sid) rows \<Longrightarrow>
     mapE (filterRecord rt sid) rows = Inr (map (\<lambda>r. (sa_date r, [])) rows)"
  by (induction rows) (auto simp: filterRecord_without)

lemma weeklyVisit_without:
  "dayWithout rt sid r \<Longrightarrow> weeklyVisit rt sid r acc = Inr acc"
  by (auto simp: dayWithout_def weeklyVisit_def Let_def findE_none split: jsval.splits)

lemma weekly_without:
  assumes "list_all (dayWithout rt sid) rows"
  shows "calculateWeeklyAttendanceRate rt rows sid = Inr 0"
proof -
  have "forEach (weeklyVisit rt sid) rows (0, 0) = Inr (0, 0)"
    using assms by (intro forEach_all_skip weeklyVisit_without) (auto simp: list_all_iff)
  then show ?thesis
    by (simp add: calculateWeeklyAttendanceRate_def percentage_0)
qed

lemma no_first_present: "filter firstIsPresent (map (\<lambda>r. (sa_date r, [])) rows) = []"
  by (induction rows) (auto simp: firstIsPresent_def)

lemma figures_without:
  assumes "list_all (dayWithout rt sid) rows"
  shows "staffFiguresOf rt rows sid =
     Inr \<lparr> sf_filteredAttendance = map (\<lambda>r. (sa_date r, [])) rows,
           sf_totalDays = length rows, sf_daysPresent = 0, sf_daysAbsent = length rows,
           sf_weeklyAttendanceRate = 0, sf_overallAttendanceRate = 0 \<rparr>"
  using mapE_without [OF assms] weekly_without [OF assms]
  by (simp add: staffFiguresOf_def Let_def no_first_present percentage_0)

lemma status_404_iff:
  "status_of (getStaffAttendanceSummary rt d sid expand) = 404 \<longleftrightarrow> StaffAttendances d = []"
  by (auto simp: getStaffAttendanceSummary_def Let_def split: sum.splits)

text \<open>
  C1 at a store of two days, of which only the first holds an entry of S1. The handler
  maps every day to its kept entries and takes \<open>totalDays\<close> as the length of that list:
  it answers \<open>totalDays = 2\<close> and \<open>daysAbsent = 1\<close>, counting the day without an entry,
  and an overall rate of 50, while the weekly rate of the same answer, which counts a day
  only when it finds an entry, is 100.
\<close>

theorem C1_totalDays_counts_every_day:
  "getStaffAttendanceSummary sampleRuntime
     (staffStore [staffDay 1 ''2024-03-04'' (JArr [entry ''S1'' ''present'']),
                  staffDay 2 ''2024-03-05'' (JArr [entry ''S2'' ''present''])]) ''S1'' None
   = Json 200 \<lparr> sm_staffDetails = None, sm_totalDays = 2, sm_daysPresent = 1, sm_daysAbsent = 1,
        sm_weeklyAttendanceRate = Percent 100 2, sm_overallAttendanceRate = Percent 50 2,
        sm_attendance = [(''2024-03-04'', [entry ''S1'' ''present'']), (''2024-03-05'', [])] \<rparr>"
  by (simp add: sample_defs staff_read_defs getStaffAttendanceSummary_def staffSummaryOf_def)

text \<open>
  C9 at a day whose column is not an array. A text that does not parse is read as the
  empty array, and the figures of an empty record set are all zero. But on a column that
  is \<^verbatim>\<open>null\<close>, or a text that parses to \<^verbatim>\<open>null\<close>, the handler calls
  \<^verbatim>\<open>staffStatus.filter\<close> on a value that has no such method: the computation throws and
  the answer is the 500 of the \<^verbatim>\<open>catch\<close> block, for every runtime, staff member and
  \<^verbatim>\<open>expand\<close>. The weekly rate, which tests \<^verbatim>\<open>Array.isArray\<close> first, returns 0 on the
  same day. An array with a \<^verbatim>\<open>null\<close> element throws as well.
\<close>

theorem C9_summary_throws_on_non_array:
  "parseStaffStatus sampleRuntime (JStr ''not json'') = JArr []
   \<and> staffFiguresOf rt [] sid
     = Inr \<lparr> sf_filteredAttendance = [], sf_totalDays = 0, sf_daysPresent = 0, sf_daysAbsent = 0,
              sf_weeklyAttendanceRate = 0, sf_overallAttendanceRate = 0 \<rparr>
   \<and> getStaffAttendanceSummary rt (staffStore [staffDay i dt JNull]) sid expand
     = Failed 500 ''Error fetching attendance data'' TypeError
   \<and> getStaffAttendanceSummary sampleRuntime
       (staffStore [staffDay 1 ''2024-03-04'' (JStr ''null'')]) ''S1'' None
     = Failed 500 ''Error fetching attendance data'' TypeError
   \<and> calculateWeeklyAttendanceRate rt [staffDay i dt JNull] sid = Inr 0
   \<and> getStaffAttendanceSummary rt (staffStore [staffDay i dt (JArr [JNull])]) sid expand
     = Failed 500 ''Error fetching attendance data'' TypeError"
  by (simp add: sample_defs staff_read_defs getStaffAttendanceSummary_def staffSummaryOf_def)

text \<open>
  C10, as the code has it. The query answers 404 exactly when the table of staff
  attendance is empty, whatever the staff member asked for. On a table that is not empty
  and in which every day reads as a collection without an entry of the staff member, the
  query without \<^verbatim>\<open>expand=staff\<close>, or with it when the staff member is the single row
  of its \<^verbatim>\<open>staffId\<close> in the directory, answers 200 with \<open>totalDays\<close> the number of
  days in the table and \<open>daysPresent = 0\<close>; with \<^verbatim>\<open>expand=staff\<close> and no such single
  row, the error of the lookup is thrown and the answer is 500.
\<close>

theorem C10_not_found_only_when_empty:
  "(status_of (getStaffAttendanceSummary rt d sid expand) = 404 \<longleftrightarrow> StaffAttendances d = [])
   \<and> (StaffAttendances d = [] \<longrightarrow>
        getStaffAttendanceSummary rt d sid expand
          = Message 404 ''No attendance data found for this staff ID.'')
   \<and> (StaffAttendances d \<noteq> [] \<and> list_all (dayWithout rt sid) (StaffAttendances d)
        \<and> (expand = Some ''staff'' \<longrightarrow>
             single (filter (\<lambda>s. staffId s = sid) (Staffs d)) = Inr s)
      \<longrightarrow> (\<exists>b. getStaffAttendanceSummary rt d sid expand = Json 200 b
               \<and> sm_totalDays b = length (StaffAttendances d)
               \<and> sm_daysPresent b = 0))
   \<and> (StaffAttendances d \<noteq> [] \<and> list_all (dayWithout rt sid) (StaffAttendances d)
        \<and> expand = Some ''staff''
        \<and> single (filter (\<lambda>s. staffId s = sid) (Staffs d)) = Inl e
      \<longrightarrow> getStaffAttendanceSummary rt d sid expand
             = Failed 500 ''Error fetching attendance data'' e)"
proof (intro conjI impI)
  show "status_of (getStaffAttendanceSummary rt d sid expand) = 404 \<longleftrightarrow> StaffAttendances d = []"
    by (rule status_404_iff)
next
  assume "StaffAttendances d = []"
  then show "getStaffAttendanceSummary rt d sid expand
          = Message 404 ''No attendance data found for this staff ID.''"
    by (simp add: getStaffAttendanceSummary_def)
next
  assume h: "StaffAttendances d \<noteq> [] \<and> list_all (dayWithout rt sid) (StaffAttendances d)
        \<and> (expand = Some ''staff'' \<longrightarrow>
             single (filter (\<lambda>s. staffId s = sid) (Staffs d)) = Inr s)"
  then have fig: "staffFiguresOf rt (StaffAttendances d) sid =
     Inr \<lparr> sf_filteredAttendance = map (\<lambda>r. (sa_date r, [])) (StaffAttendances d),
           sf_totalDays = length (StaffAttendances d), sf_daysPresent = 0,
           sf_daysAbsent = length (StaffAttendances d),
           sf_weeklyAttendanceRate = 0, sf_overallAttendanceRate = 0 \<rparr>"
    by (intro figures_without) simp
  show "\<exists>b. getStaffAttendanceSummary rt d sid expand = Json 200 b
               \<and> sm_totalDays b = length (StaffAttendances d)
               \<and> sm_daysPresent b = 0"
    using h fig by (cases "expand = Some ''staff''")
      (simp_all add: getStaffAttendanceSummary_def Let_def staffSummaryOf_def)
next
  assume h: "StaffAttendances d \<noteq> [] \<and> list_all (dayWithout rt sid) (StaffAttendances d)
        \<and> expand = Some ''staff''
        \<and> single (filter (\<lambda>s. staffId s = sid) (Staffs d)) = Inl e"
  then have fig: "staffFiguresOf rt (StaffAttendances d) sid =
     Inr \<lparr> sf_filteredAttendance = map (\<lambda>r. (sa_date r, [])) (StaffAttendances d),
           sf_totalDays = length (StaffAttendances d), sf_daysPresent = 0,
           sf_daysAbsent = length (StaffAttendances d),
           sf_weeklyAttendanceRate = 0, sf_overallAttendanceRate = 0 \<rparr>"
    by (intro figures_without) simp
  show "getStaffAttendanceSummary rt d sid expand
          = Failed 500 ''Error fetching attendance data'' e"
    using h fig by (simp add: getStaffAttendanceSummary_def Let_def)
qed

text \<open>
  C10 at a table of two days, one with an entry of S1 only and one whose text does not
  parse, asked for S9: without \<^verbatim>\<open>expand\<close> the answer is 200 with \<open>totalDays = 2\<close> and
  \<open>daysPresent = 0\<close>; with \<^verbatim>\<open>expand=staff\<close> and S9 in the directory it is the same
  with the staff row; on the empty table the answer is 404.
\<close>

theorem C10_not_found_only_when_empty_witness:
  "StaffAttendances (staffStore [staffDay 1 ''2024-03-04'' (JArr [entry ''S1'' ''present'']),
                                 staffDay 2 ''2024-03-05'' (JStr ''not json'')]) \<noteq> []
   \<and> list_all (dayWithout sampleRuntime ''S9'')
       (StaffAttendances (staffStore [staffDay 1 ''2024-03-04'' (JArr [entry ''S1'' ''present'']),
                                      staffDay 2 ''2024-03-05'' (JStr ''not json'')]))
   \<and> (\<exists>b. getStaffAttendanceSummary sampleRuntime
             (staffStore [staffDay 1 ''2024-03-04'' (JArr [entry ''S1'' ''present'']),
                          staffDay 2 ''2024-03-05'' (JStr ''not json'')]) ''S9'' None
           = Json 200 b
         \<and> sm_totalDays b = 2 \<and> sm_daysPresent b = 0)
   \<and> (\<exists>b. getStaffAttendanceSummary sampleRuntime
             \<lparr> Staffs = [\<lparr>staffId = ''S9'', staffName = ''Noor''\<rparr>], Students = [],
               StaffAttendances = [staffDay 1 ''2024-03-04'' (JArr [entry ''S1'' ''present''])],
               StudentAttendances = [] \<rparr> ''S9'' (Some ''staff'')
           = Json 200 b
         \<and> sm_totalDays b = 1 \<and> sm_daysPresent b = 0)
   \<and> getStaffAttendanceSummary sampleRuntime (staffStore []) ''S9'' None
       = Message 404 ''No attendance data found for this staff ID.''"
proof -
  let ?d = "staffStore [staffDay 1 ''2024-03-04'' (JArr [entry ''S1'' ''present'']),
                        staffDay 2 ''2024-03-05'' (JStr ''not json'')]"
  let ?d' = "\<lparr> Staffs = [\<lparr>staffId = ''S9'', staffName = ''Noor''\<rparr>], Students = [],
               StaffAttendances = [staffDay 1 ''2024-03-04'' (JArr [entry ''S1'' ''present''])],
               StudentAttendances = [] \<rparr>"
  have ne: "StaffAttendances ?d \<noteq> []"
    by (simp add: staffStore_def)
  have without: "list_all (dayWithout sampleRuntime ''S9'') (StaffAttendances ?d)"
    by (simp add: sample_defs dayWithout_def parseStaffStatus_def idIs_def)
  have len: "length (StaffAttendances ?d) = 2"
    by (simp add: staffStore_def)
  have without': "list_all (dayWithout sampleRuntime ''S9'') (StaffAttendances ?d')"
    by (simp add: sample_defs dayWithout_def parseStaffStatus_def idIs_def)
  have known: "single (filter (\<lambda>s. staffId s = ''S9'') (Staffs ?d'))
                 = Inr \<lparr>staffId = ''S9'', staffName = ''Noor''\<rparr>"
    by (simp add: single_def)
  have empty: "StaffAttendances (staffStore []) = []"
    by (simp add: staffStore_def)
  show ?thesis
    using C10_not_found_only_when_empty [of sampleRuntime ?d "''S9''" None]
      C10_not_found_only_when_empty [of sampleRuntime ?d' "''S9''" "Some ''staff''"
        "\<lparr>staffId = ''S9'', staffName = ''Noor''\<rparr>"]
      C10_not_found_only_when_empty [of sampleRuntime "staffStore []" "''S9''" None]
      ne without len without' known empty
    by simp
qed

text \<open>
  C10 as it is worded fails with \<^verbatim>\<open>expand=staff\<close>: on a table of one day, asked for S9,
  which appears in no day and has no row in the directory, the answer is neither 404 nor a
  summary but the 500 of the thrown lookup error; without \<^verbatim>\<open>expand\<close> the same query is
  answered 200.
\<close>

theorem C10_counterexample:
  "getStaffAttendanceSummary sampleRuntime
     (staffStore [staffDay 1 ''2024-03-04'' (JArr [entry ''S1'' ''present''])])
     ''S9'' (Some ''staff'')
   = Failed 500 ''Error fetching attendance data'' PGRST116
   \<and> status_of (getStaffAttendanceSummary sampleRuntime
        (staffStore [staffDay 1 ''2024-03-04'' (JArr [entry ''S1'' ''present''])])
        ''S9'' None) = 200"
  by (simp add: sample_defs staff_read_defs getStaffAttendanceSummary_def staffSummaryOf_def
       single_def)

section \<open>The upsert of a staff member's status\<close>

text \<open>
  Where no row of the date exists and the two fields are given, the handler inserts one row
  whose column is the text of the one-entry array and answers 201.
\<close>

lemma markStaffAttendance_creates:
  assumes "dt \<noteq> []" "st \<noteq> []"
    and "filter (\<lambda>r. sa_date r = dt) (StaffAttendances d) = []"
  shows "markStaffAttendance rt d sid (Some dt) (Some st)
     = (Message 201 ''New attendance record created successfully.'',
        d\<lparr>StaffAttendances := StaffAttendances d @
             [\<lparr> sa_id = nextId (map sa_id (StaffAttendances d)), sa_date = dt,
                sa_staffStatus = JStr (json_stringify rt (JArr [entry sid st])) \<rparr>]\<rparr>)"
  using assms by (simp add: markStaffAttendance_def missing_def single_def Let_def)

text \<open>
  Where the single row of the date holds a non-empty text, as every row that the handler
  has written does, \<^verbatim>\<open>findIndex\<close> is called on a string: the handler throws and the
  store is left as it was.
\<close>

lemma markStaffAttendance_text_throws:
  assumes "dt \<noteq> []" "st \<noteq> []"
    and "filter (\<lambda>r. sa_date r = dt) (StaffAttendances d) = [r]"
    and "sa_staffStatus r = JStr s" "s \<noteq> []"
  shows "markStaffAttendance rt d sid (Some dt) (Some st)
     = (Failed 500 ''Error updating attendance status'' TypeError, d)"
  using assms by (simp add: markStaffAttendance_def missing_def single_def Let_def)

lemma idIs_obj: "isObj e \<Longrightarrow> \<exists>b. idIs s e = Inr b"
  by (cases e) (auto simp: idIs_def)

lemma idIs_unique: "idIs s e = Inr True \<Longrightarrow> s' \<noteq> s \<Longrightarrow> isObj e \<Longrightarrow> idIs s' e = Inr False"
  by (cases e) (auto simp: idIs_def split: option.splits)

lemma findIndexE_objs:
  assumes "list_all isObj xs"
  shows "(findIndexE (idIs sid) xs = Inr None \<and> filter (\<lambda>e. idIs sid e = Inr True) xs = [])
       \<or> (\<exists>i. findIndexE (idIs sid) xs = Inr (Some i) \<and> i < length xs
              \<and> idIs sid (xs ! i) = Inr True
              \<and> filter (\<lambda>e. idIs sid e = Inr True) (take i xs) = [])"
  using assms
proof (induction xs)
  case Nil
  then show ?case by simp
next
  case (Cons x xs)
  then obtain b where b: "idIs sid x = Inr b"
    using idIs_obj [of x sid] by auto
  show ?case
  proof (cases b)
    case True
    then show ?thesis using b by auto
  next
    case False
    from Cons have "(findIndexE (idIs sid) xs = Inr None \<and> filter (\<lambda>e. idIs sid e = Inr True) xs = [])
       \<or> (\<exists>i. findIndexE (idIs sid) xs = Inr (Some i) \<and> i < length xs
              \<and> idIs sid (xs ! i) = Inr True
              \<and> filter (\<lambda>e. idIs sid e = Inr True) (take i xs) = [])"
      by simp
    then show ?thesis
    proof
      assume "findIndexE (idIs sid) xs = Inr None \<and> filter (\<lambda>e. idIs sid e = Inr True) xs = []"
      then show ?thesis using b False by simp
    next
      assume "\<exists>i. findIndexE (idIs sid) xs = Inr (Some i) \<and> i < length xs
              \<and> idIs sid (xs ! i) = Inr True
              \<and> filter (\<lambda>e. idIs sid e = Inr True) (take i xs) = []"
      then obtain i where "findIndexE (idIs sid) xs = Inr (Some i)" "i < length xs"
        "idIs sid (xs ! i) = Inr True" "filter (\<lambda>e. idIs sid e = Inr True) (take i xs) = []"
        by blast
      then have "findIndexE (idIs sid) (x # xs) = Inr (Some (Suc i)) \<and> Suc i < length (x # xs)
              \<and> idIs sid ((x # xs) ! Suc i) = Inr True
              \<and> filter (\<lambda>e. idIs sid e = Inr True) (take (Suc i) (x # xs)) = []"
        using b False by simp
      then show ?thesis by blast
    qed
  qed
qed

lemma setProp_status:
  assumes "isObj e"
  shows "\<exists>e'. setProp e ''status'' v = Inr e' \<and> isObj e' \<and> (\<forall>s. idIs s e' = idIs s e)
           \<and> getProp e' ''status'' = Inr v"
  using assms by (cases e) (auto simp: idIs_def update_conv')

text \<open>
  Where the single row of the date holds an array of objects, as a seeded row does, the
  handler answers 200 and writes the text of an array in which the entries of every other
  staff member are the ones it read, in their order, and the staff member has one entry
  if it had none and as many as it had otherwise, the first of them with the new status.
\<close>

lemma markStaffAttendance_array_merges:
  assumes valid: "dt \<noteq> []" "st \<noteq> []"
    and day: "filter (\<lambda>r. sa_date r = dt) (StaffAttendances d) = [r]"
    and col: "sa_staffStatus r = JArr xs"
    and objs: "list_all isObj xs"
  shows "\<exists>ys. markStaffAttendance rt d sid (Some dt) (Some st)
            = (Message 200 ''Attendance status updated successfully.'',
               d\<lparr>StaffAttendances :=
                   updateStaffStatus (sa_id r) (JStr (json_stringify rt (JArr ys)))
                     (StaffAttendances d)\<rparr>)
          \<and> list_all isObj ys
          \<and> (\<forall>s. s \<noteq> sid \<longrightarrow>
                filter (\<lambda>e. idIs s e = Inr True) ys = filter (\<lambda>e. idIs s e = Inr True) xs)
          \<and> length (filter (\<lambda>e. idIs sid e = Inr True) ys)
              = max 1 (length (filter (\<lambda>e. idIs sid e = Inr True) xs))
          \<and> (\<exists>e es. filter (\<lambda>e. idIs sid e = Inr True) ys = e # es
                \<and> getProp e ''status'' = Inr (JStr st))"
proof -
  from findIndexE_objs [OF objs, of sid] show ?thesis
  proof
    assume none: "findIndexE (idIs sid) xs = Inr None \<and> filter (\<lambda>e. idIs sid e = Inr True) xs = []"
    let ?ys = "xs @ [entry sid st]"
    have new: "idIs sid (entry sid st) = Inr True" "isObj (entry sid st)"
      "getProp (entry sid st) ''status'' = Inr (JStr st)"
      by (simp_all add: idIs_def entry_def)
    have other: "idIs s (entry sid st) \<noteq> Inr True" if "s \<noteq> sid" for s
      using that by (auto simp: idIs_def entry_def)
    have call: "markStaffAttendance rt d sid (Some dt) (Some st)
            = (Message 200 ''Attendance status updated successfully.'',
               d\<lparr>StaffAttendances :=
                   updateStaffStatus (sa_id r) (JStr (json_stringify rt (JArr ?ys)))
                     (StaffAttendances d)\<rparr>)"
      using valid day col none
      by (simp add: markStaffAttendance_def missing_def single_def Let_def)
    show ?thesis
      using call new other none objs by (intro exI [of _ ?ys]) simp
  next
    assume "\<exists>i. findIndexE (idIs sid) xs = Inr (Some i) \<and> i < length xs
              \<and> idIs sid (xs ! i) = Inr True
              \<and> filter (\<lambda>e. idIs sid e = Inr True) (take i xs) = []"
    then obtain i where i: "findIndexE (idIs sid) xs = Inr (Some i)" "i < length xs"
        "idIs sid (xs ! i) = Inr True" "filter (\<lambda>e. idIs sid e = Inr True) (take i xs) = []"
      by blast
    have obj: "isObj (xs ! i)"
      using objs i(2) by (simp add: list_all_length)
    then obtain e' where e': "setProp (xs ! i) ''status'' (JStr st) = Inr e'" "isObj e'"
        "\<And>s. idIs s e' = idIs s (xs ! i)" "getProp e' ''status'' = Inr (JStr st)"
      using setProp_status [of "xs ! i" "JStr st"] by blast
    let ?ys = "xs[i := e']"
    have call: "markStaffAttendance rt d sid (Some dt) (Some st)
            = (Message 200 ''Attendance status updated successfully.'',
               d\<lparr>StaffAttendances :=
                   updateStaffStatus (sa_id r) (JStr (json_stringify rt (JArr ?ys)))
                     (StaffAttendances d)\<rparr>)"
      using valid day col i e'(1)
      by (simp add: markStaffAttendance_def missing_def single_def Let_def)
    have xs: "xs = take i xs @ xs ! i # drop (Suc i) xs"
      using i(2) by (rule id_take_nth_drop)
    have ys: "?ys = take i xs @ e' # drop (Suc i) xs"
      using i(2) by (rule upd_conv_take_nth_drop)
    have objs': "list_all isObj ?ys"
      using objs e'(2) by (auto simp: list_all_iff dest: set_update_subset_insert [THEN subsetD])
    have fr: "filter (\<lambda>e. idIs s e = Inr True) ?ys = filter (\<lambda>e. idIs s e = Inr True) xs"
      if "s \<noteq> sid" for s
    proof -
      have no: "idIs s (xs ! i) = Inr False"
        using idIs_unique [OF i(3) that obj] .
      have "filter (\<lambda>e. idIs s e = Inr True) ?ys
          = filter (\<lambda>e. idIs s e = Inr True) (take i xs)
            @ filter (\<lambda>e. idIs s e = Inr True) (xs ! i # drop (Suc i) xs)"
        by (subst ys) (simp add: e'(3) no)
      also have "\<dots> = filter (\<lambda>e. idIs s e = Inr True) (take i xs @ xs ! i # drop (Suc i) xs)"
        by simp
      finally show ?thesis using xs by simp
    qed
    have mine: "filter (\<lambda>e. idIs sid e = Inr True) ?ys
          = e' # filter (\<lambda>e. idIs sid e = Inr True) (drop (Suc i) xs)"
      by (subst ys) (simp add: i e'(3))
    have mine0: "filter (\<lambda>e. idIs sid e = Inr True) xs
          = xs ! i # filter (\<lambda>e. idIs sid e = Inr True) (drop (Suc i) xs)"
      by (subst xs) (simp add: i)
    show ?thesis
      using call objs' fr mine mine0 e'(4) by (intro exI [of _ ?ys]) simp
  qed
qed

text \<open>
  C4 on the empty store and then on the store this leaves. The first upsert, for S1,
  inserts the day with the one entry and answers 201. The second, for S2 on the same date,
  finds the day, whose column is the text the first one wrote: the handler throws, answers
  500 instead of 200, and merges nothing.
\<close>

theorem C4_update_of_created_day_throws:
  "markStaffAttendance sampleRuntime (staffStore []) ''S1'' (Some ''2024-03-04'') (Some ''present'')
     = (Message 201 ''New attendance record created successfully.'',
        staffStore [staffDay 1 ''2024-03-04'' (JStr textS1)])
   \<and> json_parse sampleRuntime textS1 = Some (JArr [entry ''S1'' ''present''])
   \<and> markStaffAttendance sampleRuntime (staffStore [staffDay 1 ''2024-03-04'' (JStr textS1)])
       ''S2'' (Some ''2024-03-04'') (Some ''absent'')
     = (Failed 500 ''Error updating attendance status'' TypeError,
        staffStore [staffDay 1 ''2024-03-04'' (JStr textS1)])"
  by (simp add: sample_defs staff_write_defs)

text \<open>
  C5 on a day that an upsert for S2 has created. Two upserts in a row for S1 with
  \<^verbatim>\<open>present\<close> both throw and leave the store as it was: the day then holds no entry of
  S1, where the specification has exactly one with the value \<^verbatim>\<open>present\<close>. No
  duplicate entry arises either.
\<close>

theorem C5_overwrite_of_stored_day_throws:
  "markStaffAttendance sampleRuntime (staffStore []) ''S2'' (Some ''2024-03-04'') (Some ''present'')
     = (Message 201 ''New attendance record created successfully.'',
        staffStore [staffDay 1 ''2024-03-04'' (JStr textS2)])
   \<and> markStaffAttendance sampleRuntime (staffStore [staffDay 1 ''2024-03-04'' (JStr textS2)])
       ''S1'' (Some ''2024-03-04'') (Some ''present'')
     = (Failed 500 ''Error updating attendance status'' TypeError,
        staffStore [staffDay 1 ''2024-03-04'' (JStr textS2)])
   \<and> markStaffAttendance sampleRuntime
       (snd (markStaffAttendance sampleRuntime
               (staffStore [staffDay 1 ''2024-03-04'' (JStr textS2)])
               ''S1'' (Some ''2024-03-04'') (Some ''present'')))
       ''S1'' (Some ''2024-03-04'') (Some ''present'')
     = (Failed 500 ''Error updating attendance status'' TypeError,
        staffStore [staffDay 1 ''2024-03-04'' (JStr textS2)])
   \<and> mapE (filterRecord sampleRuntime ''S1'') [staffDay 1 ''2024-03-04'' (JStr textS2)]
     = Inr [(''2024-03-04'', [])]"
  by (simp add: sample_defs staff_write_defs filterRecord_def parseStaffStatus_def idIs_def)

text \<open>
  C6 on a day that holds the entry of S1. When the column is an array, as in a seeded row,
  the upsert for S2 keeps the entry of S1, appends the one of S2 and answers 200. When the
  column is the text that the handler writes, the upsert for S2 throws: the entry of S1 is
  unchanged, but no entry of S2 is added.
\<close>

theorem C6_second_member_not_added:
  "markStaffAttendance sampleRuntime
       (staffStore [staffDay 1 ''2024-03-04'' (JArr [entry ''S1'' ''present''])])
       ''S2'' (Some ''2024-03-04'') (Some ''absent'')
     = (Message 200 ''Attendance status updated successfully.'',
        staffStore [staffDay 1 ''2024-03-04'' (JStr textS1S2)])
   \<and> json_parse sampleRuntime textS1S2
     = Some (JArr [entry ''S1'' ''present'', entry ''S2'' ''absent''])
   \<and> snd (markStaffAttendance sampleRuntime
            (staffStore [staffDay 1 ''2024-03-04'' (JStr textS1)])
            ''S2'' (Some ''2024-03-04'') (Some ''absent''))
     = staffStore [staffDay 1 ''2024-03-04'' (JStr textS1)]
   \<and> mapE (filterRecord sampleRuntime ''S1'') [staffDay 1 ''2024-03-04'' (JStr textS1)]
     = Inr [(''2024-03-04'', [entry ''S1'' ''present''])]
   \<and> mapE (filterRecord sampleRuntime ''S2'') [staffDay 1 ''2024-03-04'' (JStr textS1)]
     = Inr [(''2024-03-04'', [])]"
  by (simp add: sample_defs staff_write_defs filterRecord_def parseStaffStatus_def idIs_def)

section \<open>The record of a student's attendance\<close>

text \<open>
  C7. For a request with its three fields, a student that is the single row of its
  admission number, and a table with at most one row of the pair: when a row of the pair
  exists the call is answered 400, already marked, and the store is unchanged; when none
  exists the call appends exactly one row, answers 201, and a second call for the pair,
  with whatever status, is answered 400 and leaves that one row.
\<close>

theorem C7_duplicate_rejected:
  assumes valid: "a \<noteq> []" "dt \<noteq> []" "st \<noteq> []" "st' \<noteq> []"
    and known: "single (filter (\<lambda>s. admissionNumber s = a) (Students d)) = Inr s"
    and unique: "length (filter (\<lambda>r. st_admissionNumber r = a \<and> st_date r = dt)
                   (StudentAttendances d)) \<le> 1"
    and row: "row = \<lparr> st_id = nextId (map st_id (StudentAttendances d)),
                       st_admissionNumber = a, st_date = dt, st_status = st \<rparr>"
  shows "(filter (\<lambda>r. st_admissionNumber r = a \<and> st_date r = dt) (StudentAttendances d) \<noteq> []
          \<longrightarrow>
            markStudentAttendance d (Some a) (Some dt) (Some st)
              = (Message 400 ''Attendance already marked for this student on this date'', d))
       \<and> (filter (\<lambda>r. st_admissionNumber r = a \<and> st_date r = dt) (StudentAttendances d) = []
          \<longrightarrow>
            markStudentAttendance d (Some a) (Some dt) (Some st)
              = (MessageData 201 ''Attendance recorded successfully'' [row],
                 d\<lparr>StudentAttendances := StudentAttendances d @ [row]\<rparr>)
            \<and> markStudentAttendance (d\<lparr>StudentAttendances := StudentAttendances d @ [row]\<rparr>)
                 (Some a) (Some dt) (Some st')
              = (Message 400 ''Attendance already marked for this student on this date'',
                 d\<lparr>StudentAttendances := StudentAttendances d @ [row]\<rparr>))"
proof (intro conjI impI)
  assume ex: "filter (\<lambda>r. st_admissionNumber r = a \<and> st_date r = dt) (StudentAttendances d) \<noteq> []"
  obtain r where
    "single (filter (\<lambda>r. st_admissionNumber r = a \<and> st_date r = dt) (StudentAttendances d))
       = Inr r"
    using single_of_unique [OF unique ex] by blast
  then show "markStudentAttendance d (Some a) (Some dt) (Some st)
              = (Message 400 ''Attendance already marked for this student on this date'', d)"
    using valid known by (simp add: markStudentAttendance_def missing_def Let_def)
next
  assume none: "filter (\<lambda>r. st_admissionNumber r = a \<and> st_date r = dt) (StudentAttendances d) = []"
  show "markStudentAttendance d (Some a) (Some dt) (Some st)
          = (MessageData 201 ''Attendance recorded successfully'' [row],
             d\<lparr>StudentAttendances := StudentAttendances d @ [row]\<rparr>)"
    using valid known none
    by (simp add: markStudentAttendance_def missing_def Let_def single_def row)
  have "filter (\<lambda>r. st_admissionNumber r = a \<and> st_date r = dt) (StudentAttendances d @ [row])
          = [row]"
    using none by (simp add: row)
  then show "markStudentAttendance (d\<lparr>StudentAttendances := StudentAttendances d @ [row]\<rparr>)
                 (Some a) (Some dt) (Some st')
              = (Message 400 ''Attendance already marked for this student on this date'',
                 d\<lparr>StudentAttendances := StudentAttendances d @ [row]\<rparr>)"
    using valid known
    by (simp add: markStudentAttendance_def missing_def Let_def single_def)
qed

text \<open>
  C7 for the student A1 on an empty table: the first call appends the row and answers 201,
  the second call, with another status, is answered 400 and the table keeps the one row.
\<close>

theorem C7_duplicate_rejected_witness:
  "markStudentAttendance
     (studentStore [\<lparr>admissionNumber = ''A1'', studentName = ''Ada''\<rparr>] [])
     (Some ''A1'') (Some ''2024-03-04'') (Some ''present'')
   = (MessageData 201 ''Attendance recorded successfully''
        [studentDay 1 ''A1'' ''2024-03-04'' ''present''],
      studentStore [\<lparr>admissionNumber = ''A1'', studentName = ''Ada''\<rparr>]
        [studentDay 1 ''A1'' ''2024-03-04'' ''present''])
   \<and> markStudentAttendance
     (studentStore [\<lparr>admissionNumber = ''A1'', studentName = ''Ada''\<rparr>]
        [studentDay 1 ''A1'' ''2024-03-04'' ''present''])
     (Some ''A1'') (Some ''2024-03-04'') (Some ''absent'')
   = (Message 400 ''Attendance already marked for this student on this date'',
      studentStore [\<lparr>admissionNumber = ''A1'', studentName = ''Ada''\<rparr>]
        [studentDay 1 ''A1'' ''2024-03-04'' ''present''])"
proof -
  have known: "single (filter (\<lambda>s. admissionNumber s = ''A1'')
      (Students (studentStore [\<lparr>admissionNumber = ''A1'', studentName = ''Ada''\<rparr>] [])))
      = Inr \<lparr>admissionNumber = ''A1'', studentName = ''Ada''\<rparr>"
    by (simp add: studentStore_def single_def)
  have unique: "length (filter (\<lambda>r. st_admissionNumber r = ''A1'' \<and> st_date r = ''2024-03-04'')
      (StudentAttendances
         (studentStore [\<lparr>admissionNumber = ''A1'', studentName = ''Ada''\<rparr>] []))) \<le> 1"
    by (simp add: studentStore_def)
  have ne: "''A1'' \<noteq> []" "''2024-03-04'' \<noteq> []" "''present'' \<noteq> []" "''absent'' \<noteq> []"
    by simp_all
  show ?thesis
    using C7_duplicate_rejected [OF ne known unique refl]
    by (simp add: studentStore_def studentDay_def nextId_def)
qed

end
